theory Spec2Isabelle
  imports Complex_Main
begin

section \<open>Data model (src/types/index.ts)\<close>

text \<open>
  The string-literal unions of the TypeScript declarations become datatypes, the interfaces
  become records. A JavaScript \<open>number\<close> that carries a score or a confidence is modelled
  as a real; counters and indices are naturals. Time stamps, log lines and console output
  are left out: no operation below reads them.
\<close>

datatype Severity = CRITICAL | HIGH | MEDIUM | LOW | INFORMATIONAL

datatype FindingStatus = Proposed | Debating | Validated | Rejected | Exploited | Submitted

datatype DebateRole = Proposer | RedTeam | BlueTeam | DevilsAdvocate | Pope

datatype DebateAction = Present | Attack | Defend | Challenge | Concede | Synthesize

datatype RoundType = PRESENTATION | ATTACK | DEFENSE | DEVILS_ADVOCATE | FINAL

datatype RoundOutcome = CONTINUES | CONSENSUS | REJECTED

datatype Vote = Pass | Fail

datatype Consensus = PASS | FAIL | SPLIT

text \<open>Everything a stage can throw. \<open>OracleError\<close> is a rejected call of the reasoning
  client, \<open>ParseError\<close> the failure of \<open>analyzeStructured\<close> to find structured data in
  its answer, \<open>SyntaxError\<close> the failure of \<open>JSON.parse\<close>, \<open>TypeError\<close> a method call on
  \<open>undefined\<close>.\<close>

datatype error =
    StateNotInitialized | OracleError string | ParseError string | SyntaxError string
  | TypeError string

record DebateEntry =
  round :: nat
  speaker :: string
  role :: DebateRole
  content :: string
  action :: DebateAction
  targetFinding :: "string option"

record DebateRound =
  roundNumber :: nat
  rtype :: RoundType
  entries :: "DebateEntry list"
  outcome :: RoundOutcome

record VulnerabilityFinding =
  id_f :: string
  title :: string
  description :: string
  severity :: Severity
  confidence :: real
  discoveredBy :: string
  status :: FindingStatus
  debateHistory :: "DebateEntry list option"

datatype AgentRole =
    Role_scout | Role_expert_spawner | Role_vulnerability_specialist | Role_protocol_specialist
  | Role_pattern_specialist | Role_red_team | Role_blue_team | Role_devils_advocate | Role_pope
  | Role_exploit_smith | Role_forge_master | Role_verifier

record AgentConfig =
  name_a :: string
  role_a :: AgentRole
  temperature_a :: real
  systemPrompt_a :: string

record ContractInfo =
  address :: string
  name_c :: string
  chain :: string
  sourceCode :: string

datatype ExpertType = Vulnerability | Protocol | Pattern | Novel

record ExpertDefinition =
  name_e :: string
  type_e :: ExpertType
  reason_e :: string
  systemPrompt_e :: string
  focusAreas :: "string list"
  temperature_e :: real

record ForgedExploit =
  id_x :: string
  vulnerability :: VulnerabilityFinding
  finalExploit :: string
  verified :: bool

record VerificationVote =
  verifierId :: string
  vote :: Vote
  reason :: string
  reproducibilityScore :: real
  noveltyScore :: real
  feasibilityScore :: real

record VerificationResult =
  findingId :: string
  votes :: "VerificationVote list"
  consensus :: Consensus
  confidenceScore :: real
  autoSubmit :: bool


text \<open>A finding is an object that several lists share: the pipeline state's list owns the
  findings, and every other list (the debate set, a session, the synthesis) refers to a
  finding by its position in that list.\<close>

text \<open>A session's findings are references into the state's list for the orchestrator
  (\<open>nat DebateSession\<close>) and the session's own copies for the arena and the synthesizer
  class (\<open>VulnerabilityFinding DebateSession\<close>).\<close>

record 'f DebateSession =
  id_d :: string
  contractAddress :: string
  findings_d :: "'f list"
  rounds :: "DebateRound list"
  participants :: "string list"

record PopeSynthesis =
  summary :: string
  validatedVulnerabilities :: "nat list"
  rejectedVulnerabilities :: "(nat \<times> string) list"
  novelInsights :: "string list"

datatype PipelineStage =
    Reconnaissance | ExpertSpawning | ParallelAnalysis | AdversarialDebate | Synthesis
  | ExploitForge | Verification | Submission

record PipelineState =
  currentStage :: PipelineStage
  contracts :: "ContractInfo list"
  spawnedExperts :: "ExpertDefinition list"
  findings :: "VulnerabilityFinding list"
  debates :: "nat DebateSession list"
  synthesis :: "PopeSynthesis option"
  exploits :: "ForgedExploit list"
  verificationResults :: "VerificationResult list"

record SwarmOrchestrator =
  maxConcurrentAgents :: nat
  state :: "PipelineState option"
  agents :: "string \<rightharpoonup> AgentConfig"

section \<open>Agent templates (base-agent.ts)\<close>

text \<open>The decimal digits of a number, as a template literal prints it.\<close>

function show_nat :: "nat \<Rightarrow> string" where
  "show_nat n =
     (if n < 10 then [char_of (48 + n)] else show_nat (n div 10) @ [char_of (48 + n mod 10)])"
  by pat_completeness auto
termination
  by (relation "measure (\<lambda>n. n)") auto

declare show_nat.simps [simp del]


section \<open>Awaiting several calls\<close>

text \<open>\<open>Promise.all\<close> resolves to the list of results when every call resolves and rejects
  when one rejects. Which rejection wins depends on timing; the model reports the first one
  in list order.\<close>

fun promise_all :: "(error + 'a) list \<Rightarrow> error + 'a list" where
  "promise_all [] = Inr []"
| "promise_all (Inl e # ps) = Inl e"
| "promise_all (Inr x # ps) = (case promise_all ps of Inl e \<Rightarrow> Inl e | Inr xs \<Rightarrow> Inr (x # xs))"

section \<open>Verification (SwarmOrchestrator.verify, VerificationTribunal.verify)\<close>













section \<open>Structured answers (BaseAgent.analyzeStructured)\<close>



definition fence :: string where
  "fence = replicate 3 (CHR 0x60)"













section \<open>Expert spawning (SwarmOrchestrator.spawnExperts)\<close>

text \<open>What the spawner's answer holds once \<open>analyzeStructured\<close> has read it: every field of
  the answer is optional, and so are an expert's focus areas and temperature.\<close>

record RawExpert =
  name_x :: string
  type_x :: ExpertType
  reason_x :: string
  system_prompt :: string
  focus_areas :: "string list option"
  temperature_x :: "real option"

record RawSpawn =
  contract_analysis :: "string option"
  experts_to_spawn :: "RawExpert list option"
  novel_patterns_detected :: "string list option"

record ContractAnalysis =
  summary_n :: string
  detectedPatterns :: "string list"
  integrations :: "string list"
  expertsToSpawn :: "ExpertDefinition list"
  novelPatternsDetected :: "string list"

definition expertSpawner :: AgentConfig where
  "expertSpawner = \<lparr> name_a = ''ExpertSpawner'', role_a = Role_expert_spawner,
      temperature_a = 0.3, systemPrompt_a = ''You are the Expert Spawner.'' \<rparr>"

definition toExpert :: "RawExpert \<Rightarrow> ExpertDefinition" where
  "toExpert e =
     \<lparr> name_e = name_x e, type_e = type_x e, reason_e = reason_x e,
       systemPrompt_e = system_prompt e,
       focusAreas = (case focus_areas e of Some a \<Rightarrow> a | None \<Rightarrow> []),
       temperature_e = (case temperature_x e of Some t \<Rightarrow> t | None \<Rightarrow> 0) \<rparr>"

definition defaultExperts :: "ExpertDefinition list" where
  "defaultExperts =
     [ \<lparr> name_e = ''ReentrancyExpert'', type_e = Vulnerability, reason_e = ''Standard check'',
         systemPrompt_e = ''Analyze for reentrancy vulnerabilities.'',
         focusAreas = [''external calls''], temperature_e = 0 \<rparr>,
       \<lparr> name_e = ''AccessControlExpert'', type_e = Vulnerability, reason_e = ''Standard check'',
         systemPrompt_e = ''Analyze for access control issues.'',
         focusAreas = [''modifiers'', ''roles''], temperature_e = 0 \<rparr>,
       \<lparr> name_e = ''LogicErrorExpert'', type_e = Vulnerability, reason_e = ''Standard check'',
         systemPrompt_e = ''Analyze for business logic errors.'',
         focusAreas = [''calculations'', ''state changes''], temperature_e = 0 \<rparr> ]"

text \<open>The \<open>try\<close> block and its \<open>catch\<close> (orchestrator.ts, lines 140 to 182). \<open>answer\<close> is what
  \<open>analyzeStructured\<close> returns for the contract; whatever is thrown inside the block, by
  the call or while the answer is read, ends in the \<open>catch\<close>.\<close>

definition analyzeContract :: "(error + RawSpawn) \<Rightarrow> ContractAnalysis" where
  "analyzeContract answer =
     (case answer of
        Inr data \<Rightarrow>
          \<lparr> summary_n = (case contract_analysis data of Some t \<Rightarrow> t | None \<Rightarrow> ''Analysis complete''),
            detectedPatterns = [],
            integrations = [],
            expertsToSpawn = map toExpert (case experts_to_spawn data of Some es \<Rightarrow> es | None \<Rightarrow> []),
            novelPatternsDetected =
              (case novel_patterns_detected data of Some ps \<Rightarrow> ps | None \<Rightarrow> []) \<rparr>
      | Inl parseError \<Rightarrow>
          \<lparr> summary_n = ''Using default expert configuration'',
            detectedPatterns = [],
            integrations = [],
            expertsToSpawn = defaultExperts,
            novelPatternsDetected = [] \<rparr>)"

definition expertConfig :: "ExpertDefinition \<Rightarrow> AgentConfig" where
  "expertConfig expertDef =
     \<lparr> name_a = name_e expertDef,
       role_a = (if type_e expertDef = Vulnerability then Role_vulnerability_specialist
                 else if type_e expertDef = Protocol then Role_protocol_specialist
                 else Role_pattern_specialist),
       temperature_a = temperature_e expertDef,
       systemPrompt_a = systemPrompt_e expertDef \<rparr>"

text \<open>The inner loop registers an agent under each expert's name and appends the definition
  to the state; the outer loop runs over the contracts, \<open>ask k\<close> answering for the \<open>k\<close>-th.\<close>

fun createExperts ::
  "ExpertDefinition list \<Rightarrow> (string \<rightharpoonup> AgentConfig) \<times> ExpertDefinition list
     \<Rightarrow> (string \<rightharpoonup> AgentConfig) \<times> ExpertDefinition list" where
  "createExperts [] (ag, sp) = (ag, sp)"
| "createExperts (expertDef # ds) (ag, sp) =
     createExperts ds (ag(name_e expertDef \<mapsto> expertConfig expertDef), sp @ [expertDef])"

fun spawnLoop ::
  "(nat \<Rightarrow> error + RawSpawn) \<Rightarrow> nat \<Rightarrow> ContractInfo list
     \<Rightarrow> (string \<rightharpoonup> AgentConfig) \<times> ExpertDefinition list
     \<Rightarrow> (string \<rightharpoonup> AgentConfig) \<times> ExpertDefinition list" where
  "spawnLoop ask k [] acc = acc"
| "spawnLoop ask k (contract # rest) acc =
     spawnLoop ask (Suc k) rest (createExperts (expertsToSpawn (analyzeContract (ask k))) acc)"

definition spawnExperts :: "(nat \<Rightarrow> error + RawSpawn) \<Rightarrow> SwarmOrchestrator \<Rightarrow> error + SwarmOrchestrator" where
  "spawnExperts ask orch =
     (case state orch of
        None \<Rightarrow> Inl StateNotInitialized
      | Some s \<Rightarrow>
          (case spawnLoop ask 0 (contracts s)
                  ((agents orch)(''ExpertSpawner'' \<mapsto> expertSpawner), spawnedExperts s) of
             (ag, sp) \<Rightarrow> Inr (orch\<lparr> agents := ag, state := Some (s\<lparr> spawnedExperts := sp \<rparr>) \<rparr>)))"

section \<open>Parallel analysis (SwarmOrchestrator.parallelAnalysis)\<close>

record RawFinding =
  title_w :: string
  description_w :: string
  severity_w :: Severity
  confidence_w :: real

text \<open>A finding's id is the expert's name, the clock and a random suffix; \<open>stamp\<close> stands for
  the last two, clock and suffix joined, as the call drew them.\<close>

definition mkFinding :: "ExpertDefinition \<Rightarrow> string \<Rightarrow> RawFinding \<Rightarrow> VulnerabilityFinding" where
  "mkFinding expertDef stamp raw =
     \<lparr> id_f = name_e expertDef @ ''-'' @ stamp,
       title = title_w raw,
       description = description_w raw,
       severity = severity_w raw,
       confidence = confidence_w raw,
       discoveredBy = name_e expertDef,
       status = Proposed,
       debateHistory = None \<rparr>"

fun pushFindings ::
  "ExpertDefinition \<Rightarrow> (nat \<Rightarrow> string) \<Rightarrow> nat \<Rightarrow> RawFinding list \<Rightarrow> VulnerabilityFinding list
     \<Rightarrow> VulnerabilityFinding list" where
  "pushFindings expertDef stamp j [] fs = fs"
| "pushFindings expertDef stamp j (raw # raws) fs =
     pushFindings expertDef stamp (Suc j) raws (fs @ [mkFinding expertDef (stamp j) raw])"

text \<open>One expert's loop over the contracts: \<open>ask c\<close> is what \<open>analyzeStructured\<close> returns for
  the \<open>c\<close>-th contract. The \<open>catch\<close> of the loop body logs the error and goes on.\<close>

fun analyzeContracts ::
  "(nat \<Rightarrow> error + RawFinding list) \<Rightarrow> (nat \<Rightarrow> nat \<Rightarrow> string) \<Rightarrow> ExpertDefinition \<Rightarrow> nat
     \<Rightarrow> ContractInfo list \<Rightarrow> VulnerabilityFinding list \<Rightarrow> VulnerabilityFinding list" where
  "analyzeContracts ask stamp expertDef c [] fs = fs"
| "analyzeContracts ask stamp expertDef c (contract # rest) fs =
     analyzeContracts ask stamp expertDef (Suc c) rest
       (case ask c of
          Inr rawFindings \<Rightarrow> pushFindings expertDef (stamp c) 0 rawFindings fs
        | Inl err \<Rightarrow> fs)"

definition expertTask ::
  "(string \<rightharpoonup> AgentConfig) \<Rightarrow> ContractInfo list \<Rightarrow> (nat \<Rightarrow> error + RawFinding list)
     \<Rightarrow> (nat \<Rightarrow> nat \<Rightarrow> string) \<Rightarrow> ExpertDefinition \<Rightarrow> error + VulnerabilityFinding list" where
  "expertTask ag cs ask stamp expertDef =
     (case ag (name_e expertDef) of
        None \<Rightarrow> Inr []
      | Some expert \<Rightarrow> Inr (analyzeContracts ask stamp expertDef 0 cs []))"

fun expertTasks ::
  "(string \<rightharpoonup> AgentConfig) \<Rightarrow> ContractInfo list \<Rightarrow> (nat \<Rightarrow> nat \<Rightarrow> error + RawFinding list)
     \<Rightarrow> (nat \<Rightarrow> nat \<Rightarrow> nat \<Rightarrow> string) \<Rightarrow> nat \<Rightarrow> ExpertDefinition list
     \<Rightarrow> (error + VulnerabilityFinding list) list" where
  "expertTasks ag cs analyst stamp e [] = []"
| "expertTasks ag cs analyst stamp e (expertDef # ds) =
     expertTask ag cs (analyst e) (stamp e) expertDef # expertTasks ag cs analyst stamp (Suc e) ds"

text \<open>The stage: \<open>analyst e c\<close> answers the \<open>e\<close>-th spawned expert about the \<open>c\<close>-th contract.
  The limiter decides when a task starts, not what it returns, and \<open>Promise.all\<close> keeps the
  experts' order.\<close>

definition parallelAnalysis ::
  "(nat \<Rightarrow> nat \<Rightarrow> error + RawFinding list) \<Rightarrow> (nat \<Rightarrow> nat \<Rightarrow> nat \<Rightarrow> string) \<Rightarrow> SwarmOrchestrator
     \<Rightarrow> error + SwarmOrchestrator" where
  "parallelAnalysis analyst stamp orch =
     (case state orch of
        None \<Rightarrow> Inl StateNotInitialized
      | Some s \<Rightarrow>
          (case promise_all (expertTasks (agents orch) (contracts s) analyst stamp 0 (spawnedExperts s)) of
             Inl e \<Rightarrow> Inl e
           | Inr allFindings \<Rightarrow> Inr (orch\<lparr> state := Some (s\<lparr> findings := concat allFindings \<rparr>) \<rparr>)))"

text \<open>What the loop body adds for one contract: the findings made from the answer, or
  nothing when the call threw.\<close>

definition contribution ::
  "(nat \<Rightarrow> error + RawFinding list) \<Rightarrow> (nat \<Rightarrow> nat \<Rightarrow> string) \<Rightarrow> ExpertDefinition \<Rightarrow> nat
     \<Rightarrow> VulnerabilityFinding list" where
  "contribution ask stamp ed c =
     (case ask c of
        Inl err \<Rightarrow> []
      | Inr raws \<Rightarrow> map (\<lambda>j. mkFinding ed (stamp c j) (raws ! j)) [0 ..< length raws])"

section \<open>Adversarial debate (SwarmOrchestrator.adversarialDebate)\<close>

definition redTeamAttacker :: "nat \<Rightarrow> AgentConfig" where
  "redTeamAttacker i = \<lparr> name_a = ''RedTeamAttacker_'' @ show_nat i, role_a = Role_red_team,
      temperature_a = 0.5, systemPrompt_a = ''You are Red Team Attacker #'' @ show_nat i \<rparr>"

definition blueTeamDefender :: "nat \<Rightarrow> AgentConfig" where
  "blueTeamDefender i = \<lparr> name_a = ''BlueTeamDefender_'' @ show_nat i, role_a = Role_blue_team,
      temperature_a = 0.3, systemPrompt_a = ''You are Blue Team Defender #'' @ show_nat i \<rparr>"

definition devilsAdvocate :: "nat \<Rightarrow> AgentConfig" where
  "devilsAdvocate i = \<lparr> name_a = ''DevilsAdvocate_'' @ show_nat i, role_a = Role_devils_advocate,
      temperature_a = 0.4, systemPrompt_a = ''You are Devil's Advocate #'' @ show_nat i \<rparr>"

definition MAX_FINDINGS_TO_DEBATE :: nat where
  "MAX_FINDINGS_TO_DEBATE = 15"

definition BATCH_SIZE :: nat where
  "BATCH_SIZE = 5"

fun severityWeight :: "Severity \<Rightarrow> nat" where
  "severityWeight CRITICAL = 4"
| "severityWeight HIGH = 3"
| "severityWeight MEDIUM = 2"
| "severityWeight LOW = 1"
| "severityWeight INFORMATIONAL = 0"

definition score :: "VulnerabilityFinding \<Rightarrow> real" where
  "score f = real (severityWeight (severity f)) * confidence f"

text \<open>The debate set (orchestrator.ts, lines 348 to 354), as references into the state's
  list. \<open>Array.prototype.sort\<close> is stable, and its comparator \<open>scoreB - scoreA\<close> orders by
  falling score; \<open>sort_key\<close> is the stable insertion sort on the negated score.\<close>

definition prioritizedFindings :: "VulnerabilityFinding list \<Rightarrow> nat list" where
  "prioritizedFindings fs =
     take MAX_FINDINGS_TO_DEBATE (sort_key (\<lambda>i. - score (fs ! i)) [0 ..< length fs])"

text \<open>The slices \<open>xs.slice(i, i + n)\<close> for \<open>i = 0, n, 2n, ...\<close> below the length.\<close>

function batches :: "nat \<Rightarrow> 'a list \<Rightarrow> 'a list list" where
  "batches n xs = (if n = 0 \<or> xs = [] then [] else take n xs # batches n (drop n xs))"
  by pat_completeness auto
termination
  by (relation "measure (\<lambda>(n, xs). length xs)") auto

declare batches.simps [simp del]

text \<open>A round awaits its batches one after the other. Within a batch every call is started
  at once and each works on its own finding; the model takes them in list order, \<open>idx\<close>
  being the position in the batch. A call that throws rejects the batch and the stage.\<close>

fun runBatch :: "(nat \<Rightarrow> nat \<Rightarrow> 'st \<Rightarrow> error + 'st) \<Rightarrow> nat \<Rightarrow> nat list \<Rightarrow> 'st \<Rightarrow> error + 'st" where
  "runBatch step idx [] st = Inr st"
| "runBatch step idx (i # rest) st =
     (case step idx i st of Inl e \<Rightarrow> Inl e | Inr st' \<Rightarrow> runBatch step (Suc idx) rest st')"

fun runBatches :: "(nat \<Rightarrow> nat \<Rightarrow> 'st \<Rightarrow> error + 'st) \<Rightarrow> nat list list \<Rightarrow> 'st \<Rightarrow> error + 'st" where
  "runBatches step [] st = Inr st"
| "runBatches step (b # bs) st =
     (case runBatch step 0 b st of Inl e \<Rightarrow> Inl e | Inr st' \<Rightarrow> runBatches step bs st')"

definition mkRound :: "nat \<Rightarrow> RoundType \<Rightarrow> DebateEntry \<Rightarrow> DebateRound" where
  "mkRound n t e = \<lparr> roundNumber = n, rtype = t, entries = [e], outcome = CONTINUES \<rparr>"

text \<open>The four round bodies (orchestrator.ts, lines 405 to 425, 435 to 462, 471 to 498 and
  507 to 537) on the pair of the findings and the session's rounds. \<open>say\<close> is the oracle's
  text for the finding, or the error the call threw. The first round adds its entry to the
  session only; the later rounds add a second, equal entry to the finding's history.\<close>

definition presentStep ::
  "(string \<rightharpoonup> AgentConfig) \<Rightarrow> (nat \<Rightarrow> error + string) \<Rightarrow> nat \<Rightarrow> nat
     \<Rightarrow> VulnerabilityFinding list \<times> DebateRound list
     \<Rightarrow> error + VulnerabilityFinding list \<times> DebateRound list" where
  "presentStep ag say idx i st =
     (case st of (fs, rs) \<Rightarrow>
        (case ag (discoveredBy (fs ! i)) of
           None \<Rightarrow> Inr (fs, rs)
         | Some expert \<Rightarrow>
             (case say i of
                Inl e \<Rightarrow> Inl e
              | Inr presentation \<Rightarrow>
                  Inr (fs[i := (fs ! i)\<lparr> status := Debating \<rparr>],
                       rs @ [mkRound 1 PRESENTATION
                               \<lparr> round = 1, speaker = discoveredBy (fs ! i), role = Proposer,
                                 content = presentation, action = Present,
                                 targetFinding = Some (id_f (fs ! i)) \<rparr>]))))"

definition attackStep ::
  "(nat \<Rightarrow> error + string) \<Rightarrow> nat \<Rightarrow> nat
     \<Rightarrow> VulnerabilityFinding list \<times> DebateRound list
     \<Rightarrow> error + VulnerabilityFinding list \<times> DebateRound list" where
  "attackStep say idx i st =
     (case st of (fs, rs) \<Rightarrow>
        (case say i of
           Inl e \<Rightarrow> Inl e
         | Inr attack \<Rightarrow>
             (let entry = \<lparr> round = 2, speaker = name_a (redTeamAttacker (idx mod 3 + 1)),
                            role = RedTeam, content = attack, action = Attack,
                            targetFinding = Some (id_f (fs ! i)) \<rparr>;
                  history = (case debateHistory (fs ! i) of None \<Rightarrow> [] | Some h \<Rightarrow> h)
              in Inr (fs[i := (fs ! i)\<lparr> debateHistory := Some (history @ [entry]) \<rparr>],
                      rs @ [mkRound 2 ATTACK entry]))))"

definition defendStep ::
  "(nat \<Rightarrow> error + string) \<Rightarrow> nat \<Rightarrow> nat
     \<Rightarrow> VulnerabilityFinding list \<times> DebateRound list
     \<Rightarrow> error + VulnerabilityFinding list \<times> DebateRound list" where
  "defendStep say idx i st =
     (case st of (fs, rs) \<Rightarrow>
        (case say i of
           Inl e \<Rightarrow> Inl e
         | Inr defense \<Rightarrow>
             (let entry = \<lparr> round = 3, speaker = name_a (blueTeamDefender (idx mod 2 + 1)),
                            role = BlueTeam, content = defense, action = Defend,
                            targetFinding = Some (id_f (fs ! i)) \<rparr>
              in Inr (fs[i := (fs ! i)\<lparr> debateHistory :=
                                map_option (\<lambda>h. h @ [entry]) (debateHistory (fs ! i)) \<rparr>],
                      rs @ [mkRound 3 DEFENSE entry]))))"

definition challengeStep ::
  "(nat \<Rightarrow> error + string) \<Rightarrow> nat \<Rightarrow> nat
     \<Rightarrow> VulnerabilityFinding list \<times> DebateRound list
     \<Rightarrow> error + VulnerabilityFinding list \<times> DebateRound list" where
  "challengeStep say idx i st =
     (case st of (fs, rs) \<Rightarrow>
        (case say i of
           Inl e \<Rightarrow> Inl e
         | Inr challenge \<Rightarrow>
             (let entry = \<lparr> round = 4, speaker = name_a (devilsAdvocate (idx mod 2 + 1)),
                            role = DevilsAdvocate, content = challenge, action = Challenge,
                            targetFinding = Some (id_f (fs ! i)) \<rparr>
              in Inr (fs[i := (fs ! i)\<lparr> debateHistory :=
                                map_option (\<lambda>h. h @ [entry]) (debateHistory (fs ! i)) \<rparr>],
                      rs @ [mkRound 4 DEVILS_ADVOCATE entry]))))"

text \<open>The closing loop over the state's findings (orchestrator.ts, lines 545 to 549):
  \<open>includes\<close> compares references, here positions.\<close>

fun markUndebated :: "nat list \<Rightarrow> nat \<Rightarrow> VulnerabilityFinding list \<Rightarrow> VulnerabilityFinding list" where
  "markUndebated prioritized j [] = []"
| "markUndebated prioritized j (finding # rest) =
     (if j \<in> set prioritized then finding else finding\<lparr> status := Proposed \<rparr>)
       # markUndebated prioritized (Suc j) rest"

definition debateAgents :: "(string \<rightharpoonup> AgentConfig) \<Rightarrow> (string \<rightharpoonup> AgentConfig)" where
  "debateAgents ag =
     ag(''RedTeamAttacker_1'' \<mapsto> redTeamAttacker 1, ''RedTeamAttacker_2'' \<mapsto> redTeamAttacker 2,
        ''RedTeamAttacker_3'' \<mapsto> redTeamAttacker 3,
        ''BlueTeamDefender_1'' \<mapsto> blueTeamDefender 1, ''BlueTeamDefender_2'' \<mapsto> blueTeamDefender 2,
        ''DevilsAdvocate_1'' \<mapsto> devilsAdvocate 1, ''DevilsAdvocate_2'' \<mapsto> devilsAdvocate 2)"

definition debateParticipants :: "ExpertDefinition list \<Rightarrow> string list" where
  "debateParticipants experts =
     map name_e experts
       @ map (\<lambda>i. ''RedTeamAttacker_'' @ show_nat (i + 1)) [0, 1, 2]
       @ map (\<lambda>i. ''BlueTeamDefender_'' @ show_nat (i + 1)) [0, 1]
       @ map (\<lambda>i. ''DevilsAdvocate_'' @ show_nat (i + 1)) [0, 1]"

text \<open>The rounds of the stage, from the debate set to the findings and session rounds they
  leave. \<open>say r i\<close> is the oracle's text in round \<open>r\<close> for the finding at position \<open>i\<close>.\<close>

definition debateRounds ::
  "(string \<rightharpoonup> AgentConfig) \<Rightarrow> (nat \<Rightarrow> nat \<Rightarrow> error + string) \<Rightarrow> nat list \<Rightarrow> VulnerabilityFinding list
     \<Rightarrow> error + VulnerabilityFinding list \<times> DebateRound list" where
  "debateRounds ag say prioritized fs =
     (case runBatches (presentStep ag (say 1)) (batches BATCH_SIZE prioritized) (fs, []) of
        Inl e \<Rightarrow> Inl e
      | Inr st1 \<Rightarrow>
          (let debatingFindings = filter (\<lambda>i. status (fst st1 ! i) = Debating) prioritized in
           case runBatches (attackStep (say 2)) (batches BATCH_SIZE debatingFindings) st1 of
             Inl e \<Rightarrow> Inl e
           | Inr st2 \<Rightarrow>
               (case runBatches (defendStep (say 3)) (batches BATCH_SIZE debatingFindings) st2 of
                  Inl e \<Rightarrow> Inl e
                | Inr st3 \<Rightarrow>
                    runBatches (challengeStep (say 4)) (batches BATCH_SIZE debatingFindings) st3)))"

text \<open>The stage; \<open>now\<close> is the clock reading that names the session.\<close>

definition adversarialDebate ::
  "(nat \<Rightarrow> nat \<Rightarrow> error + string) \<Rightarrow> nat \<Rightarrow> SwarmOrchestrator \<Rightarrow> error + SwarmOrchestrator" where
  "adversarialDebate say now orch =
     (case state orch of
        None \<Rightarrow> Inl StateNotInitialized
      | Some s \<Rightarrow>
          if findings s = [] then Inr orch
          else
            (let prioritized = prioritizedFindings (findings s);
                 ag = debateAgents (agents orch)
             in case debateRounds ag say prioritized (findings s) of
                  Inl e \<Rightarrow> Inl e
                | Inr (fs, rs) \<Rightarrow>
                    Inr (orch\<lparr> agents := ag,
                               state := Some (s\<lparr>
                                 debates := debates s @
                                   [\<lparr> id_d = ''debate-'' @ show_nat now,
                                      contractAddress =
                                        (case contracts s of [] \<Rightarrow> ''unknown'' | c # cs \<Rightarrow> address c),
                                      findings_d = prioritized,
                                      rounds = rs,
                                      participants = debateParticipants (spawnedExperts s) \<rparr>],
                                 findings := markUndebated prioritized 0 fs \<rparr>) \<rparr>)))"

section \<open>Debate arena (DebateArena)\<close>

record DebateConfig =
  maxRounds :: nat
  redTeamSize :: nat
  blueTeamSize :: nat
  devilsAdvocateSize :: nat
  concessionThreshold :: real

definition defaultDebateConfig :: DebateConfig where
  "defaultDebateConfig = \<lparr> maxRounds = 5, redTeamSize = 3, blueTeamSize = 2,
      devilsAdvocateSize = 2, concessionThreshold = 0.3 \<rparr>"

text \<open>The arena's own view of a finding, kept in a map from the finding's id.\<close>

datatype Life = Alive | Dead

text \<open>An array read \<open>xs[i]\<close>, which is \<open>undefined\<close> beyond the end, and the index
  \<open>Math.floor(Math.random() * xs.length)\<close> for a draw \<open>p\<close>: any index below the length, and
  0 for the empty array.\<close>

definition arrayAt :: "'a list \<Rightarrow> nat \<Rightarrow> 'a option" where
  "arrayAt xs i = (if i < length xs then Some (xs ! i) else None)"

definition randomIndex :: "nat \<Rightarrow> nat \<Rightarrow> nat" where
  "randomIndex len p = (if len = 0 then 0 else p mod len)"

text \<open>The concession pattern
  \<^verbatim>\<open>/\b(concede|accept|valid point|they're right|cannot defend|unable to defend)\b/i\<close>.
  Every phrase begins and ends with a letter, so the word boundary before it asks for no
  word character in front and the one after it for none behind.\<close>

definition isWordChar :: "char \<Rightarrow> bool" where
  "isWordChar c =
     (let n = (of_char c :: nat)
      in (48 \<le> n \<and> n \<le> 57) \<or> (65 \<le> n \<and> n \<le> 90) \<or> n = 95 \<or> (97 \<le> n \<and> n \<le> 122))"

definition toLower :: "char \<Rightarrow> char" where
  "toLower c = (let n = (of_char c :: nat) in if 65 \<le> n \<and> n \<le> 90 then char_of (n + 32) else c)"

definition concessionPhrases :: "string list" where
  "concessionPhrases =
     [''concede'', ''accept'', ''valid point'', ''they'' @ [CHR 39] @ ''re right'',
      ''cannot defend'', ''unable to defend'']"

definition phraseAt :: "string \<Rightarrow> string \<Rightarrow> bool" where
  "phraseAt phrase s =
     (map toLower (take (length phrase) s) = phrase
      \<and> (case drop (length phrase) s of [] \<Rightarrow> True | d # rest \<Rightarrow> \<not> isWordChar d))"

fun scanConcession :: "bool \<Rightarrow> string \<Rightarrow> bool" where
  "scanConcession afterWord [] = False"
| "scanConcession afterWord (c # cs) =
     ((\<not> afterWord \<and> list_ex (\<lambda>phrase. phraseAt phrase (c # cs)) concessionPhrases)
      \<or> scanConcession (isWordChar c) cs)"

definition concedesPattern :: "string \<Rightarrow> bool" where
  "concedesPattern s = scanConcession False s"

text \<open>What the arena cannot compute: the oracle's text for the finding at position \<open>i\<close> in
  round \<open>r\<close> (or the error the call threw), the draws that pick an agent, and the draw that
  decides between the blue team and the finding's own specialist.\<close>

record ArenaOracle =
  say_o :: "nat \<Rightarrow> nat \<Rightarrow> error + string"
  pick_o :: "nat \<Rightarrow> nat \<Rightarrow> nat"
  blueDefends_o :: "nat \<Rightarrow> bool"

record DebateResult =
  session_r :: "VulnerabilityFinding DebateSession"
  survivors_r :: "nat list"
  rejected_r :: "(nat \<times> string) list"

text \<open>A round's loop over its findings, which are positions in the session's list. A call
  that throws ends the loop and the debate.\<close>

fun forEach :: "(nat \<Rightarrow> 'st \<Rightarrow> error + 'st) \<Rightarrow> nat list \<Rightarrow> 'st \<Rightarrow> error + 'st" where
  "forEach step [] st = Inr st"
| "forEach step (i # rest) st =
     (case step i st of Inl e \<Rightarrow> Inl e | Inr st' \<Rightarrow> forEach step rest st')"

text \<open>\<open>entries.push(e); finding.debateHistory?.push(e)\<close>: the same entry goes to both lists.
  The first round creates the history when there is none.\<close>

definition record_entry ::
  "nat \<Rightarrow> DebateEntry \<Rightarrow> VulnerabilityFinding list \<times> DebateEntry list
     \<Rightarrow> VulnerabilityFinding list \<times> DebateEntry list" where
  "record_entry i e st =
     (case st of (fs, es) \<Rightarrow>
        (fs[i := (fs ! i)\<lparr> debateHistory := map_option (\<lambda>h. h @ [e]) (debateHistory (fs ! i)) \<rparr>],
         es @ [e]))"

definition presentationStep ::
  "(string \<times> AgentConfig) list \<Rightarrow> (nat \<Rightarrow> error + string) \<Rightarrow> nat
     \<Rightarrow> VulnerabilityFinding list \<times> DebateEntry list
     \<Rightarrow> error + VulnerabilityFinding list \<times> DebateEntry list" where
  "presentationStep specialists answer i st =
     (case st of (fs, es) \<Rightarrow>
        (case map_of specialists (discoveredBy (fs ! i)) of
           None \<Rightarrow> Inr (fs, es)
         | Some specialist \<Rightarrow>
             (case answer i of
                Inl e \<Rightarrow> Inl e
              | Inr response \<Rightarrow>
                  (let entry = \<lparr> round = 1, speaker = discoveredBy (fs ! i), role = Proposer,
                                 content = response, action = Present,
                                 targetFinding = Some (id_f (fs ! i)) \<rparr>;
                       history = (case debateHistory (fs ! i) of None \<Rightarrow> [] | Some h \<Rightarrow> h)
                   in Inr (fs[i := (fs ! i)\<lparr> debateHistory := Some (history @ [entry]) \<rparr>],
                           es @ [entry])))))"

definition attackRoundStep ::
  "AgentConfig list \<Rightarrow> (nat \<Rightarrow> nat) \<Rightarrow> (nat \<Rightarrow> error + string) \<Rightarrow> nat
     \<Rightarrow> VulnerabilityFinding list \<times> DebateEntry list
     \<Rightarrow> error + VulnerabilityFinding list \<times> DebateEntry list" where
  "attackRoundStep redTeam draw answer i st =
     (case arrayAt redTeam (randomIndex (length redTeam) (draw i)) of
        None \<Rightarrow> Inl (TypeError ''Cannot read properties of undefined (reading analyze)'')
      | Some attacker \<Rightarrow>
          (case answer i of
             Inl e \<Rightarrow> Inl e
           | Inr response \<Rightarrow>
               Inr (record_entry i
                      \<lparr> round = 2, speaker = name_a attacker, role = RedTeam, content = response,
                        action = Attack, targetFinding = Some (id_f (fst st ! i)) \<rparr> st)))"

definition defenseStep ::
  "AgentConfig list \<Rightarrow> (string \<times> AgentConfig) list \<Rightarrow> DebateEntry list \<Rightarrow> ArenaOracle \<Rightarrow> nat
     \<Rightarrow> VulnerabilityFinding list \<times> DebateEntry list
     \<Rightarrow> error + VulnerabilityFinding list \<times> DebateEntry list" where
  "defenseStep blueTeam specialists attackEntries orc i st =
     (case find (\<lambda>e. targetFinding e = Some (id_f (fst st ! i))) attackEntries of
        None \<Rightarrow> Inr st
      | Some attack \<Rightarrow>
          (case (if blueDefends_o orc i
                 then arrayAt blueTeam (randomIndex (length blueTeam) (pick_o orc 3 i))
                 else map_of specialists (discoveredBy (fst st ! i))) of
             None \<Rightarrow> Inr st
           | Some defender \<Rightarrow>
               (case say_o orc 3 i of
                  Inl e \<Rightarrow> Inl e
                | Inr response \<Rightarrow>
                    Inr (record_entry i
                           \<lparr> round = 3, speaker = name_a defender, role = BlueTeam,
                             content = response,
                             action = (if concedesPattern response then Concede else Defend),
                             targetFinding = Some (id_f (fst st ! i)) \<rparr> st))))"

definition devilsAdvocateStep ::
  "AgentConfig list \<Rightarrow> (nat \<Rightarrow> nat) \<Rightarrow> (nat \<Rightarrow> error + string) \<Rightarrow> nat
     \<Rightarrow> VulnerabilityFinding list \<times> DebateEntry list
     \<Rightarrow> error + VulnerabilityFinding list \<times> DebateEntry list" where
  "devilsAdvocateStep devilsAdvocates draw answer i st =
     (case arrayAt devilsAdvocates (randomIndex (length devilsAdvocates) (draw i)) of
        None \<Rightarrow> Inl (TypeError ''Cannot read properties of undefined (reading analyze)'')
      | Some advocate \<Rightarrow>
          (case answer i of
             Inl e \<Rightarrow> Inl e
           | Inr response \<Rightarrow>
               Inr (record_entry i
                      \<lparr> round = 4, speaker = name_a advocate, role = DevilsAdvocate,
                        content = response, action = Challenge,
                        targetFinding = Some (id_f (fst st ! i)) \<rparr> st)))"

definition finalStep ::
  "AgentConfig list \<Rightarrow> (nat \<Rightarrow> error + string) \<Rightarrow> nat
     \<Rightarrow> VulnerabilityFinding list \<times> DebateEntry list
     \<Rightarrow> error + VulnerabilityFinding list \<times> DebateEntry list" where
  "finalStep blueTeam answer i st =
     (case arrayAt blueTeam 0 of
        None \<Rightarrow> Inl (TypeError ''Cannot read properties of undefined (reading analyze)'')
      | Some defender \<Rightarrow>
          (case answer i of
             Inl e \<Rightarrow> Inl e
           | Inr response \<Rightarrow>
               Inr (record_entry i
                      \<lparr> round = 5, speaker = name_a defender, role = BlueTeam, content = response,
                        action = Defend, targetFinding = Some (id_f (fst st ! i)) \<rparr> st)))"

text \<open>\<open>processConcessions\<close> (orchestrator.ts, lines 1437 to 1451). The test
  \<open>entry.targetFinding\<close> is a truth test: it fails for a missing target and for the empty
  string. \<open>findings.find\<close> yields the first finding with the id.\<close>

definition firstWithId :: "string \<Rightarrow> VulnerabilityFinding list \<Rightarrow> nat option" where
  "firstWithId t fs = find (\<lambda>k. id_f (fs ! k) = t) [0 ..< length fs]"

fun processConcessions ::
  "DebateEntry list \<Rightarrow> VulnerabilityFinding list \<times> (string \<rightharpoonup> Life)
     \<Rightarrow> VulnerabilityFinding list \<times> (string \<rightharpoonup> Life)" where
  "processConcessions [] acc = acc"
| "processConcessions (entry # rest) (fs, life) =
     processConcessions rest
       (case targetFinding entry of
          None \<Rightarrow> (fs, life)
        | Some t \<Rightarrow>
            if action entry = Concede \<and> t \<noteq> []
            then ((case firstWithId t fs of
                     None \<Rightarrow> fs
                   | Some k \<Rightarrow> fs[k := (fs ! k)\<lparr> status := Rejected \<rparr>]),
                  life(t \<mapsto> Dead))
            else (fs, life))"

definition aliveFindings :: "(string \<rightharpoonup> Life) \<Rightarrow> VulnerabilityFinding list \<Rightarrow> nat list" where
  "aliveFindings life fs = filter (\<lambda>i. life (id_f (fs ! i)) = Some Alive) [0 ..< length fs]"

text \<open>\<open>compileResults\<close> (lines 1456 to 1494), without the list of strengthened findings,
  which is read off the texts and changes nothing.\<close>

definition rejectionReasonOf :: "VulnerabilityFinding \<Rightarrow> string" where
  "rejectionReasonOf f =
     (let h = (case debateHistory f of None \<Rightarrow> [] | Some es \<Rightarrow> es)
      in case find (\<lambda>e. action e = Concede) h of
           Some e \<Rightarrow> content e
         | None \<Rightarrow>
             (case find (\<lambda>e. action e = Attack) h of
                Some e \<Rightarrow> content e
              | None \<Rightarrow> ''Rejected during debate''))"

definition compileStatus :: "(string \<rightharpoonup> Life) \<Rightarrow> VulnerabilityFinding \<Rightarrow> VulnerabilityFinding" where
  "compileStatus life f =
     (if life (id_f f) = Some Dead then f\<lparr> status := Rejected \<rparr> else f\<lparr> status := Validated \<rparr>)"

definition compileResults ::
  "VulnerabilityFinding DebateSession \<Rightarrow> (string \<rightharpoonup> Life) \<Rightarrow> DebateResult" where
  "compileResults ses life =
     (let fs = findings_d ses; n = length fs
      in \<lparr> session_r = ses\<lparr> findings_d := map (compileStatus life) fs \<rparr>,
            survivors_r = filter (\<lambda>i. life (id_f (fs ! i)) \<noteq> Some Dead) [0 ..< n],
            rejected_r = map (\<lambda>i. (i, rejectionReasonOf (fs ! i)))
                           (filter (\<lambda>i. life (id_f (fs ! i)) = Some Dead) [0 ..< n]) \<rparr>)"

definition arenaRound :: "nat \<Rightarrow> RoundType \<Rightarrow> RoundOutcome \<Rightarrow> DebateEntry list \<Rightarrow> DebateRound" where
  "arenaRound n t out es = \<lparr> roundNumber = n, rtype = t, entries = es, outcome = out \<rparr>"

text \<open>\<open>debate\<close> (lines 1024 to 1112). The session works on copies of the findings with status
  \<open>debating\<close>; the rounds run one after the other, each on the findings alive by then.\<close>

definition debate ::
  "DebateConfig \<Rightarrow> ArenaOracle \<Rightarrow> nat \<Rightarrow> VulnerabilityFinding list \<Rightarrow> ContractInfo list
     \<Rightarrow> (string \<times> AgentConfig) list \<Rightarrow> error + DebateResult" where
  "debate cfg orc now fs0 cs specialists =
     (let redTeam = map redTeamAttacker [1 ..< Suc (redTeamSize cfg)];
          blueTeam = map blueTeamDefender [1 ..< Suc (blueTeamSize cfg)];
          devilsAdvocates = map devilsAdvocate [1 ..< Suc (devilsAdvocateSize cfg)];
          copies = map (\<lambda>f. f\<lparr> status := Debating \<rparr>) fs0;
          life0 = fold (\<lambda>f m. m(id_f f \<mapsto> Alive)) fs0 Map.empty;
          ses = \<lparr> id_d = ''debate-'' @ show_nat now,
                  contractAddress = (case cs of [] \<Rightarrow> ''unknown'' | c # rest \<Rightarrow> address c),
                  findings_d = copies,
                  rounds = [],
                  participants = map fst specialists @ map name_a redTeam @ map name_a blueTeam
                                   @ map name_a devilsAdvocates \<rparr>
      in case forEach (presentationStep specialists (say_o orc 1)) [0 ..< length copies] (copies, []) of
           Inl e \<Rightarrow> Inl e
         | Inr (fs1, es1) \<Rightarrow>
         (case forEach (attackRoundStep redTeam (pick_o orc 2) (say_o orc 2)) (aliveFindings life0 fs1) (fs1, []) of
           Inl e \<Rightarrow> Inl e
         | Inr (fs2, es2) \<Rightarrow>
         (case forEach (defenseStep blueTeam specialists es2 orc) (aliveFindings life0 fs2) (fs2, []) of
           Inl e \<Rightarrow> Inl e
         | Inr (fs3, es3) \<Rightarrow>
         (case processConcessions es3 (fs3, life0) of (fs3', life1) \<Rightarrow>
         (case forEach (devilsAdvocateStep devilsAdvocates (pick_o orc 4) (say_o orc 4))
                 (aliveFindings life1 fs3') (fs3', []) of
           Inl e \<Rightarrow> Inl e
         | Inr (fs4, es4) \<Rightarrow>
             (let rounds4 = [arenaRound 1 PRESENTATION CONTINUES es1, arenaRound 2 ATTACK CONTINUES es2,
                             arenaRound 3 DEFENSE CONTINUES es3,
                             arenaRound 4 DEVILS_ADVOCATE CONTINUES es4];
                  alive = aliveFindings life1 fs4
              in if alive \<noteq> [] \<and> length rounds4 < maxRounds cfg
                 then (case forEach (finalStep blueTeam (say_o orc 5)) alive (fs4, []) of
                         Inl e \<Rightarrow> Inl e
                       | Inr (fs5, es5) \<Rightarrow>
                           Inr (compileResults
                                  (ses\<lparr> findings_d := fs5,
                                        rounds := rounds4 @ [arenaRound 5 FINAL CONSENSUS es5] \<rparr>)
                                  life1))
                 else Inr (compileResults (ses\<lparr> findings_d := fs4, rounds := rounds4 \<rparr>) life1)))))))"

text \<open>The invariant of an arena round over the positions \<open>L\<close>: the ids stay, and every entry targets a finding of the round.\<close>

definition roundInv :: "string list \<Rightarrow> nat list \<Rightarrow> VulnerabilityFinding list \<times> DebateEntry list \<Rightarrow> bool" where
  "roundInv ids L st =
     (map id_f (fst st) = ids \<and> (\<forall>e \<in> set (snd st). \<exists>j \<in> set L. targetFinding e = Some (ids ! j)))"

section \<open>Synthesis (SwarmOrchestrator.synthesize, ThePope.synthesize)\<close>

text \<open>What the synthesizer's answer holds once \<open>analyzeStructured\<close> has read it.\<close>

record RawValidated =
  id_v :: string
  title_v :: string
  description_v :: string
  severity_v :: Severity
  confidence_v :: real

record RawRejected =
  id_j :: string
  reason_j :: string

record RawSynthesis =
  synthesis_text :: string
  validated_vulnerabilities :: "RawValidated list"
  rejected_vulnerabilities :: "RawRejected list"
  novel_insights :: "string list"

definition pope :: AgentConfig where
  "pope = \<lparr> name_a = ''ThePope'', role_a = Role_pope, temperature_a = 0.2,
            systemPrompt_a = ''You are The Pope. You synthesize debates into truth.'' \<rparr>"

text \<open>The two lookups of the orchestrator's loop over the findings (orchestrator.ts, lines
  629 to 634): \<open>Array.prototype.find\<close> returns the first element that satisfies the
  predicate.\<close>

definition findValidated :: "RawValidated list \<Rightarrow> VulnerabilityFinding \<Rightarrow> RawValidated option" where
  "findValidated vs finding = find (\<lambda>v. id_v v = id_f finding \<or> title_v v = title finding) vs"

definition findRejected :: "RawRejected list \<Rightarrow> VulnerabilityFinding \<Rightarrow> RawRejected option" where
  "findRejected rs finding = find (\<lambda>r. id_j r = id_f finding) rs"

definition updateFinding :: "RawSynthesis \<Rightarrow> VulnerabilityFinding \<Rightarrow> VulnerabilityFinding" where
  "updateFinding syn finding =
     (case findValidated (validated_vulnerabilities syn) finding of
        Some validated \<Rightarrow>
          finding\<lparr> status := Validated, severity := severity_v validated,
                   confidence := confidence_v validated \<rparr>
      | None \<Rightarrow>
          (case findRejected (rejected_vulnerabilities syn) finding of
             Some rejected \<Rightarrow> finding\<lparr> status := Rejected \<rparr>
           | None \<Rightarrow> finding))"

text \<open>The positions of the findings with a given status: \<open>findings.filter\<close> keeps references.\<close>

definition withStatus :: "FindingStatus \<Rightarrow> VulnerabilityFinding list \<Rightarrow> nat list" where
  "withStatus st fs = filter (\<lambda>i. status (fs ! i) = st) [0 ..< length fs]"

definition rejectionReason :: "RawRejected list \<Rightarrow> VulnerabilityFinding \<Rightarrow> string" where
  "rejectionReason rs f = (case findRejected rs f of Some r \<Rightarrow> reason_j r | None \<Rightarrow> ''Unknown'')"

text \<open>The stage. \<open>answer\<close> is what \<open>analyzeStructured\<close> returns to the synthesizer for the
  prompt built from the transcript: its answer, or the error it threw, which the stage does
  not catch.\<close>

definition synthesize :: "(error + RawSynthesis) \<Rightarrow> SwarmOrchestrator \<Rightarrow> error + SwarmOrchestrator" where
  "synthesize answer orch =
     (case state orch of
        None \<Rightarrow> Inl StateNotInitialized
      | Some s \<Rightarrow>
          (case answer of
             Inl e \<Rightarrow> Inl e
           | Inr syn \<Rightarrow>
               (let fs = map (updateFinding syn) (findings s) in
                Inr (orch\<lparr> agents := (agents orch)(''ThePope'' \<mapsto> pope),
                           state := Some (s\<lparr> findings := fs,
                             synthesis := Some
                               \<lparr> summary = synthesis_text syn,
                                 validatedVulnerabilities = withStatus Validated fs,
                                 rejectedVulnerabilities =
                                   map (\<lambda>i. (i, rejectionReason (rejected_vulnerabilities syn) (fs ! i)))
                                     (withStatus Rejected fs),
                                 novelInsights = novel_insights syn \<rparr> \<rparr>) \<rparr>))))"

text \<open>The synthesizer class maps each reference of the answer back to a finding of the
  debates (the-pope.ts, lines 124 to 150). A rejected reference that matches no finding gets
  a placeholder that holds its id only.\<close>

definition popeOriginal :: "VulnerabilityFinding list \<Rightarrow> RawValidated \<Rightarrow> VulnerabilityFinding option" where
  "popeOriginal allFindings v = find (\<lambda>f. id_f f = id_v v \<or> title f = title_v v) allFindings"

fun popeValidated :: "VulnerabilityFinding list \<Rightarrow> RawValidated list \<Rightarrow> VulnerabilityFinding list" where
  "popeValidated allFindings [] = []"
| "popeValidated allFindings (v # vs) =
     (case popeOriginal allFindings v of
        Some original \<Rightarrow>
          original\<lparr> description := description_v v, severity := severity_v v,
                    confidence := confidence_v v, status := Validated \<rparr>
            # popeValidated allFindings vs
      | None \<Rightarrow> popeValidated allFindings vs)"

datatype RejectedFinding = Original VulnerabilityFinding | Placeholder string

definition popeRejected :: "VulnerabilityFinding list \<Rightarrow> RawRejected list \<Rightarrow> (RejectedFinding \<times> string) list" where
  "popeRejected allFindings rs =
     map (\<lambda>r. (case find (\<lambda>f. id_f f = id_j r) allFindings of
                  Some original \<Rightarrow> Original original
                | None \<Rightarrow> Placeholder (id_j r),
                reason_j r)) rs"

record PopeResult =
  summary_p :: string
  validatedVulnerabilities_p :: "VulnerabilityFinding list"
  rejectedVulnerabilities_p :: "(RejectedFinding \<times> string) list"
  novelInsights_p :: "string list"

definition popeSynthesize ::
  "(error + RawSynthesis) \<Rightarrow> VulnerabilityFinding DebateSession list \<Rightarrow> error + PopeResult" where
  "popeSynthesize answer ds =
     (let allFindings = concat (map findings_d ds) in
      case answer of
        Inl e \<Rightarrow> Inl e
      | Inr d \<Rightarrow>
          Inr \<lparr> summary_p = synthesis_text d,
                validatedVulnerabilities_p = popeValidated allFindings (validated_vulnerabilities d),
                rejectedVulnerabilities_p = popeRejected allFindings (rejected_vulnerabilities d),
                novelInsights_p = novel_insights d \<rparr>)"


section \<open>Concrete inputs\<close>






text \<open>Three findings under debate, two of them with the same title, and an answer of
  the synthesizer that validates the first by its exact id.\<close>

definition cx_A :: VulnerabilityFinding where
  "cx_A = \<lparr> id_f = ''ReentrancyExpert-1'', title = ''Reentrancy in withdraw'',
      description = ''state is written after the external call'', severity = HIGH,
      confidence = 0.8, discoveredBy = ''ReentrancyExpert'', status = Debating,
      debateHistory = None \<rparr>"








text \<open>A pipeline with one contract: a spawner whose answer cannot be parsed, and five
  experts of which the third fails on every call.\<close>

definition w_contract :: ContractInfo where
  "w_contract = \<lparr> address = ''0xabc'', name_c = ''YieldVault'', chain = ''ethereum'',
      sourceCode = ''contract YieldVault {}'' \<rparr>"

definition w_spawn_state :: PipelineState where
  "w_spawn_state = \<lparr> currentStage = ExpertSpawning, contracts = [w_contract], spawnedExperts = [],
      findings = [], debates = [], synthesis = None, exploits = [], verificationResults = [] \<rparr>"

definition w_spawn_orch :: SwarmOrchestrator where
  "w_spawn_orch = \<lparr> maxConcurrentAgents = 5, state = Some w_spawn_state, agents = Map.empty \<rparr>"

definition w_ask :: "nat \<Rightarrow> error + RawSpawn" where
  "w_ask k = Inl (ParseError ''Failed to parse JSON from response'')"

definition w_experts :: "ExpertDefinition list" where
  "w_experts = defaultExperts @
     [ \<lparr> name_e = ''OracleExpert'', type_e = Vulnerability, reason_e = ''price feeds'',
         systemPrompt_e = ''Analyze the oracle use.'', focusAreas = [], temperature_e = 0 \<rparr>,
       \<lparr> name_e = ''AaveExpert'', type_e = Protocol, reason_e = ''lending'',
         systemPrompt_e = ''Analyze the Aave integration.'', focusAreas = [], temperature_e = 0 \<rparr> ]"

definition w_analysis_orch :: SwarmOrchestrator where
  "w_analysis_orch = \<lparr> maxConcurrentAgents = 5,
      state = Some (w_spawn_state\<lparr> currentStage := ParallelAnalysis, spawnedExperts := w_experts \<rparr>),
      agents = map_of (map (\<lambda>d. (name_e d, expertConfig d)) w_experts) \<rparr>"

definition w_analyst :: "nat \<Rightarrow> nat \<Rightarrow> error + RawFinding list" where
  "w_analyst e c =
     (if e = 2 then Inl (OracleError ''rate limit'')
      else Inr [\<lparr> title_w = ''Unchecked call'', description_w = ''d'', severity_w = HIGH,
                  confidence_w = 0.7 \<rparr>])"

definition w_stamp :: "nat \<Rightarrow> nat \<Rightarrow> nat \<Rightarrow> string" where
  "w_stamp e c j = ''1700000000000-k3j9x2a''"




definition w_say :: "nat \<Rightarrow> nat \<Rightarrow> error + string" where
  "w_say r i = Inr ''The finding stands.''"

definition w_single_orch :: SwarmOrchestrator where
  "w_single_orch = \<lparr> maxConcurrentAgents = 5,
      state = Some (w_spawn_state\<lparr> currentStage := AdversarialDebate, spawnedExperts := defaultExperts,
                                   findings := [cx_A\<lparr> status := Proposed \<rparr>] \<rparr>),
      agents = map_of (map (\<lambda>d. (name_e d, expertConfig d)) defaultExperts) \<rparr>"


text \<open>An arena debate over one finding: the defender concedes, every other call answers,
  and every draw picks the first agent of the blue team. The second finding is the first
  with the empty string for its id.\<close>

definition arena_oracle :: ArenaOracle where
  "arena_oracle = \<lparr> say_o = (\<lambda>r i. Inr (if r = 3 then ''I concede.'' else ''Noted.'')),
      pick_o = (\<lambda>r i. 0), blueDefends_o = (\<lambda>i. True) \<rparr>"

definition arena_specialists :: "(string \<times> AgentConfig) list" where
  "arena_specialists = map (\<lambda>d. (name_e d, expertConfig d)) defaultExperts"



text \<open>Two answers of the oracle: two empty objects side by side, and an empty array in a
  fenced block between two sentences. \<open>cx_parse\<close> is \<open>JSON.parse\<close> on the texts these
  answers make the method parse: it reads \<^verbatim>\<open>{}\<close> and \<^verbatim>\<open>[]\<close>, and it rejects
  \<^verbatim>\<open>{} {}\<close>, as it rejects every text it is not asked about here.\<close>

datatype json = JNull | JBool bool | JNumber string | JString string | JArray "json list"
  | JObject "(string \<times> json) list"





section \<open>Facts about awaiting\<close>









section \<open>Claims\<close>





section \<open>Facts about the synthesis lookups\<close>
















section \<open>Facts about spawning and analysis\<close>

lemma promise_all_Inr: "promise_all (map Inr xs) = Inr xs"
  by (induction xs) auto

lemma createExperts_snd: "snd (createExperts ds acc) = snd acc @ ds"
proof (induction ds arbitrary: acc)
  case Nil
  then show ?case by (cases acc) simp
next
  case (Cons d ds)
  then show ?case by (cases acc) simp
qed

lemma createExperts_dom: "dom (fst (createExperts ds acc)) = dom (fst acc) \<union> name_e ` set ds"
proof (induction ds arbitrary: acc)
  case Nil
  then show ?case by (cases acc) simp
next
  case (Cons d ds)
  then show ?case by (cases acc) auto
qed

lemma spawnLoop_snd:
  "snd (spawnLoop ask k cs acc)
     = snd acc @ concat (map (\<lambda>i. expertsToSpawn (analyzeContract (ask i))) [k ..< k + length cs])"
proof (induction cs arbitrary: k acc)
  case Nil
  then show ?case by simp
next
  case (Cons c cs)
  have "[k ..< k + length (c # cs)] = k # [Suc k ..< Suc k + length cs]"
    by (simp add: upt_rec)
  with Cons show ?case
    by (simp add: createExperts_snd)
qed

lemma spawnLoop_dom:
  "dom (fst (spawnLoop ask k cs acc))
     = dom (fst acc)
       \<union> name_e ` set (concat (map (\<lambda>i. expertsToSpawn (analyzeContract (ask i))) [k ..< k + length cs]))"
proof (induction cs arbitrary: k acc)
  case Nil
  then show ?case by simp
next
  case (Cons c cs)
  let ?F = "\<lambda>i. expertsToSpawn (analyzeContract (ask i))"
  have e: "[k ..< k + length (c # cs)] = k # [Suc k ..< Suc k + length cs]"
    by (simp add: upt_rec)
  have "dom (fst (spawnLoop ask k (c # cs) acc))
      = dom (fst (spawnLoop ask (Suc k) cs (createExperts (?F k) acc)))"
    by simp
  also have "\<dots> = dom (fst (createExperts (?F k) acc))
      \<union> name_e ` set (concat (map ?F [Suc k ..< Suc k + length cs]))"
    by (rule Cons)
  also have "\<dots> = dom (fst acc) \<union> name_e ` set (?F k)
      \<union> name_e ` set (concat (map ?F [Suc k ..< Suc k + length cs]))"
    by (simp only: createExperts_dom)
  also have "\<dots> = dom (fst acc)
      \<union> name_e ` set (concat (map ?F (k # [Suc k ..< Suc k + length cs])))"
    by (simp only: list.map concat.simps set_append image_Un Un_assoc)
  finally show ?case
    unfolding e .
qed

lemma defaultExperts_vulnerability: "\<exists>d \<in> set defaultExperts. type_e d = Vulnerability"
  by (simp add: defaultExperts_def)


lemma pushFindings_eq:
  "pushFindings ed stamp j raws fs
     = fs @ map (\<lambda>i. mkFinding ed (stamp (j + i)) (raws ! i)) [0 ..< length raws]"
proof (induction raws arbitrary: j fs)
  case Nil
  then show ?case by simp
next
  case (Cons raw raws)
  have "map (\<lambda>i. mkFinding ed (stamp (j + i)) ((raw # raws) ! i)) [0 ..< length (raw # raws)]
      = mkFinding ed (stamp j) raw
        # map (\<lambda>i. mkFinding ed (stamp (Suc j + i)) (raws ! i)) [0 ..< length raws]"
    by (simp add: upt_rec [of 0] map_Suc_upt [symmetric] del: upt_Suc)
  with Cons show ?case
    by simp
qed

lemma analyzeContracts_eq:
  "analyzeContracts ask stamp ed c cs fs
     = fs @ concat (map (contribution ask stamp ed) [c ..< c + length cs])"
proof (induction cs arbitrary: c fs)
  case Nil
  then show ?case by simp
next
  case (Cons x cs)
  have e: "[c ..< c + length (x # cs)] = c # [Suc c ..< Suc c + length cs]"
    by (simp add: upt_rec)
  show ?case
    unfolding e using Cons [of "Suc c"]
    by (cases "ask c") (simp_all add: contribution_def pushFindings_eq)
qed

lemma expertTasks_eq:
  "expertTasks ag cs analyst stamp e ds
     = map (\<lambda>i. expertTask ag cs (analyst (e + i)) (stamp (e + i)) (ds ! i)) [0 ..< length ds]"
proof (induction ds arbitrary: e)
  case Nil
  then show ?case by simp
next
  case (Cons d ds)
  have "map (\<lambda>i. expertTask ag cs (analyst (e + i)) (stamp (e + i)) ((d # ds) ! i)) [0 ..< length (d # ds)]
      = expertTask ag cs (analyst e) (stamp e) d
        # map (\<lambda>i. expertTask ag cs (analyst (Suc e + i)) (stamp (Suc e + i)) (ds ! i)) [0 ..< length ds]"
    by (simp add: upt_rec [of 0] map_Suc_upt [symmetric] del: upt_Suc)
  with Cons show ?case
    by simp
qed

lemma expertTask_eq:
  "expertTask ag cs ask stamp ed
     = Inr (if name_e ed \<in> dom ag
            then concat (map (contribution ask stamp ed) [0 ..< length cs]) else [])"
  by (auto simp: expertTask_def analyzeContracts_eq split: option.splits)


lemma parallelAnalysis_eq:
  assumes "state orch = Some s"
  shows "parallelAnalysis analyst stamp orch
    = Inr (orch\<lparr> state := Some (s\<lparr> findings :=
        concat (map (\<lambda>e. if name_e (spawnedExperts s ! e) \<in> dom (agents orch)
                          then concat (map (contribution (analyst e) (stamp e) (spawnedExperts s ! e))
                                 [0 ..< length (contracts s)])
                          else [])
                 [0 ..< length (spawnedExperts s)]) \<rparr>) \<rparr>)"
proof -
  let ?g = "\<lambda>e. if name_e (spawnedExperts s ! e) \<in> dom (agents orch)
                 then concat (map (contribution (analyst e) (stamp e) (spawnedExperts s ! e))
                        [0 ..< length (contracts s)])
                 else []"
  have "expertTasks (agents orch) (contracts s) analyst stamp 0 (spawnedExperts s)
      = map Inr (map ?g [0 ..< length (spawnedExperts s)])"
    by (simp add: expertTasks_eq expertTask_eq)
  then have "promise_all (expertTasks (agents orch) (contracts s) analyst stamp 0 (spawnedExperts s))
      = Inr (map ?g [0 ..< length (spawnedExperts s)])"
    by (simp only: promise_all_Inr)
  then show ?thesis
    using assms by (simp add: parallelAnalysis_def)
qed


text \<open>
  C7. Whatever the spawner answers for a contract, the expert-spawning stage of an
  initialised pipeline returns normally. For a contract whose answer could not be read, the
  experts to spawn are the fixed default set; every default expert is then among the
  spawned experts and has an agent registered under its name, and the default set holds an
  expert of the vulnerability kind. The stage leaves the contracts and findings as they were,
  for the stages that follow.
\<close>

theorem C7_spawn_fallback:
  assumes "state orch = Some s"
  shows "\<exists>orch' s'. spawnExperts ask orch = Inr orch' \<and> state orch' = Some s'
    \<and> contracts s' = contracts s \<and> findings s' = findings s
    \<and> spawnedExperts s'
        = spawnedExperts s
          @ concat (map (\<lambda>k. expertsToSpawn (analyzeContract (ask k))) [0 ..< length (contracts s)])
    \<and> (\<forall>k < length (contracts s). \<forall>e. ask k = Inl e \<longrightarrow>
          expertsToSpawn (analyzeContract (ask k)) = defaultExperts
          \<and> set defaultExperts \<subseteq> set (spawnedExperts s')
          \<and> name_e ` set defaultExperts \<subseteq> dom (agents orch'))
    \<and> (\<exists>d \<in> set defaultExperts. type_e d = Vulnerability)"
proof -
  define acc where "acc = ((agents orch)(''ExpertSpawner'' \<mapsto> expertSpawner), spawnedExperts s)"
  define res where "res = spawnLoop ask 0 (contracts s) acc"
  define orch' where "orch' = orch\<lparr> agents := fst res, state := Some (s\<lparr> spawnedExperts := snd res \<rparr>) \<rparr>"
  define s' where "s' = s\<lparr> spawnedExperts := snd res \<rparr>"
  have run: "spawnExperts ask orch = Inr orch'"
    using assms by (simp add: spawnExperts_def orch'_def res_def acc_def split: prod.splits)
  have st: "state orch' = Some s'"
    by (simp add: orch'_def s'_def)
  have sp: "spawnedExperts s'
        = spawnedExperts s
          @ concat (map (\<lambda>k. expertsToSpawn (analyzeContract (ask k))) [0 ..< length (contracts s)])"
    using spawnLoop_snd [of ask 0 "contracts s" acc] by (simp add: s'_def res_def acc_def)
  have dm: "dom (agents orch')
        = dom (fst acc)
          \<union> name_e ` set (concat (map (\<lambda>k. expertsToSpawn (analyzeContract (ask k))) [0 ..< length (contracts s)]))"
    using spawnLoop_dom [of ask 0 "contracts s" acc] by (simp add: orch'_def res_def)
  have fall: "\<forall>k < length (contracts s). \<forall>e. ask k = Inl e \<longrightarrow>
          expertsToSpawn (analyzeContract (ask k)) = defaultExperts
          \<and> set defaultExperts \<subseteq> set (spawnedExperts s')
          \<and> name_e ` set defaultExperts \<subseteq> dom (agents orch')"
  proof (intro allI impI)
    fix k e assume k: "k < length (contracts s)" and e: "ask k = Inl e"
    have d: "expertsToSpawn (analyzeContract (ask k)) = defaultExperts"
      using e by (simp add: analyzeContract_def)
    have "set (expertsToSpawn (analyzeContract (ask k)))
        \<subseteq> set (concat (map (\<lambda>k. expertsToSpawn (analyzeContract (ask k))) [0 ..< length (contracts s)]))"
      using k by (auto intro!: bexI [of _ k])
    with d have "set defaultExperts
        \<subseteq> set (concat (map (\<lambda>k. expertsToSpawn (analyzeContract (ask k))) [0 ..< length (contracts s)]))"
      by simp
    then show "expertsToSpawn (analyzeContract (ask k)) = defaultExperts
          \<and> set defaultExperts \<subseteq> set (spawnedExperts s')
          \<and> name_e ` set defaultExperts \<subseteq> dom (agents orch')"
      using d sp dm by auto
  qed
  have same: "contracts s' = contracts s" "findings s' = findings s"
    by (simp_all add: s'_def)
  show ?thesis
    by (rule exI [of _ orch'], rule exI [of _ s'])
      (intro conjI run st same sp fall defaultExperts_vulnerability)
qed



theorem C7_spawn_fallback_witness:
  "\<exists>orch' s'. spawnExperts w_ask w_spawn_orch = Inr orch' \<and> state orch' = Some s'
     \<and> spawnedExperts s' = defaultExperts"
proof -
  have st: "state w_spawn_orch = Some w_spawn_state"
    by (simp add: w_spawn_orch_def)
  from C7_spawn_fallback [OF st, of w_ask] obtain orch' s' where
    run: "spawnExperts w_ask w_spawn_orch = Inr orch'" and s': "state orch' = Some s'"
    and sp: "spawnedExperts s'
        = spawnedExperts w_spawn_state
          @ concat (map (\<lambda>k. expertsToSpawn (analyzeContract (w_ask k)))
              [0 ..< length (contracts w_spawn_state)])"
    by blast
  have "spawnedExperts s' = defaultExperts"
    unfolding sp by (simp add: w_spawn_state_def w_ask_def analyzeContract_def)
  with run s' show ?thesis by blast
qed


text \<open>
  C8. The parallel-analysis stage of an initialised pipeline returns normally whatever the
  calls do. Its finding list is the concatenation, expert by expert and contract by
  contract, of what each call produced, a call that threw contributing nothing; so every
  finding that a registered expert's successful call returned is in the list, whichever
  other calls failed.
\<close>

theorem C8_isolation:
  assumes "state orch = Some s"
  shows "\<exists>orch' s'. parallelAnalysis analyst stamp orch = Inr orch' \<and> state orch' = Some s'
    \<and> findings s'
        = concat (map (\<lambda>e. if name_e (spawnedExperts s ! e) \<in> dom (agents orch)
                   then concat (map (\<lambda>c. case analyst e c of
                                           Inl err \<Rightarrow> []
                                         | Inr raws \<Rightarrow>
                                             map (\<lambda>j. mkFinding (spawnedExperts s ! e) (stamp e c j) (raws ! j))
                                               [0 ..< length raws])
                          [0 ..< length (contracts s)])
                   else [])
            [0 ..< length (spawnedExperts s)])
    \<and> (\<forall>e < length (spawnedExperts s). \<forall>c < length (contracts s). \<forall>raws.
          name_e (spawnedExperts s ! e) \<in> dom (agents orch) \<and> analyst e c = Inr raws \<longrightarrow>
          (\<forall>j < length raws.
             mkFinding (spawnedExperts s ! e) (stamp e c j) (raws ! j) \<in> set (findings s')))"
proof -
  let ?h = "\<lambda>e c. case analyst e c of
                 Inl err \<Rightarrow> []
               | Inr raws \<Rightarrow>
                   map (\<lambda>j. mkFinding (spawnedExperts s ! e) (stamp e c j) (raws ! j)) [0 ..< length raws]"
  let ?g = "\<lambda>e. if name_e (spawnedExperts s ! e) \<in> dom (agents orch)
                 then concat (map (?h e) [0 ..< length (contracts s)]) else []"
  define fs where "fs = concat (map ?g [0 ..< length (spawnedExperts s)])"
  define s' where "s' = s\<lparr> findings := fs \<rparr>"
  define orch' where "orch' = orch\<lparr> state := Some s' \<rparr>"
  have h: "contribution (analyst e) (stamp e) (spawnedExperts s ! e) = ?h e" for e
    by (rule ext) (simp add: contribution_def)
  have run: "parallelAnalysis analyst stamp orch = Inr orch'"
    unfolding orch'_def s'_def fs_def
    using parallelAnalysis_eq [OF assms, of analyst stamp] by (simp only: h)
  have st: "state orch' = Some s'"
    by (simp add: orch'_def)
  have fs: "findings s' = fs"
    by (simp add: s'_def)
  have appear: "\<forall>e < length (spawnedExperts s). \<forall>c < length (contracts s). \<forall>raws.
          name_e (spawnedExperts s ! e) \<in> dom (agents orch) \<and> analyst e c = Inr raws \<longrightarrow>
          (\<forall>j < length raws.
             mkFinding (spawnedExperts s ! e) (stamp e c j) (raws ! j) \<in> set (findings s'))"
  proof (intro allI impI)
    fix e c raws j
    assume e: "e < length (spawnedExperts s)" and c: "c < length (contracts s)"
      and a: "name_e (spawnedExperts s ! e) \<in> dom (agents orch) \<and> analyst e c = Inr raws"
      and j: "j < length raws"
    define H where "H = ?h e"
    define G where "G = ?g"
    have "mkFinding (spawnedExperts s ! e) (stamp e c j) (raws ! j) \<in> set (H c)"
      using a j by (simp add: H_def)
    moreover have "H c \<in> set (map H [0 ..< length (contracts s)])"
      using c by simp
    then have "set (H c) \<subseteq> set (concat (map H [0 ..< length (contracts s)]))"
      by (auto simp del: set_map map_eq_conv)
    then have "set (H c) \<subseteq> set (G e)"
      using a by (simp add: G_def H_def)
    moreover have "G e \<in> set (map G [0 ..< length (spawnedExperts s)])"
      using e by simp
    then have "set (G e) \<subseteq> set (concat (map G [0 ..< length (spawnedExperts s)]))"
      by (auto simp del: set_map map_eq_conv)
    then have "set (G e) \<subseteq> set fs"
      by (simp only: fs_def G_def)
    ultimately show "mkFinding (spawnedExperts s ! e) (stamp e c j) (raws ! j) \<in> set (findings s')"
      unfolding fs by blast
  qed
  show ?thesis
    by (rule exI [of _ orch'], rule exI [of _ s'])
      (intro conjI run st appear, simp only: fs fs_def)
qed

theorem C8_isolation_witness:
  "\<exists>orch' s'. parallelAnalysis w_analyst w_stamp w_analysis_orch = Inr orch' \<and> state orch' = Some s'
     \<and> map discoveredBy (findings s')
         = [''ReentrancyExpert'', ''AccessControlExpert'', ''OracleExpert'', ''AaveExpert'']"
proof -
  have st: "state w_analysis_orch
      = Some (w_spawn_state\<lparr> currentStage := ParallelAnalysis, spawnedExperts := w_experts \<rparr>)"
    by (simp add: w_analysis_orch_def)
  from C8_isolation [OF st, of w_analyst w_stamp] obtain orch' s' where
    run: "parallelAnalysis w_analyst w_stamp w_analysis_orch = Inr orch'"
    and s': "state orch' = Some s'"
    and fs: "findings s'
        = concat (map (\<lambda>e. if name_e (spawnedExperts (w_spawn_state\<lparr> currentStage := ParallelAnalysis, spawnedExperts := w_experts \<rparr>) ! e) \<in> dom (agents w_analysis_orch)
                   then concat (map (\<lambda>c. case w_analyst e c of
                                           Inl err \<Rightarrow> []
                                         | Inr raws \<Rightarrow>
                                             map (\<lambda>j. mkFinding (spawnedExperts (w_spawn_state\<lparr> currentStage := ParallelAnalysis, spawnedExperts := w_experts \<rparr>) ! e) (w_stamp e c j) (raws ! j))
                                               [0 ..< length raws])
                          [0 ..< length (contracts (w_spawn_state\<lparr> currentStage := ParallelAnalysis, spawnedExperts := w_experts \<rparr>))])
                   else [])
            [0 ..< length (spawnedExperts (w_spawn_state\<lparr> currentStage := ParallelAnalysis, spawnedExperts := w_experts \<rparr>))])"
    by blast
  have "map discoveredBy (findings s')
      = [''ReentrancyExpert'', ''AccessControlExpert'', ''OracleExpert'', ''AaveExpert'']"
    unfolding fs
    by (simp add: w_spawn_state_def w_experts_def defaultExperts_def w_analysis_orch_def
        w_analyst_def mkFinding_def upt_rec dom_def)
  with run s' show ?thesis
    by - (rule exI [of _ orch'], rule exI [of _ s'], simp)
qed

section \<open>Facts about the debate stage\<close>
























lemma batches_single: "batches BATCH_SIZE [i] = [[i]]"
  by (simp add: batches.simps BATCH_SIZE_def)

lemma batches_empty: "batches n [] = []"
  by (simp add: batches.simps)

lemma prioritized_single: "prioritizedFindings [f] = [0]"
  by (simp add: prioritizedFindings_def MAX_FINDINGS_TO_DEBATE_def)





text \<open>
  C5 fails on the orchestrator's debate. For a single finding whose discoverer is
  registered and an oracle that always answers, the session's rounds hold a \<open>present\<close>, an
  \<open>attack\<close>, a \<open>defend\<close> and a \<open>challenge\<close> entry that target the finding, while the
  finding's own history holds the last three only: the first round never writes to the
  history.
\<close>

theorem C5_present_entry_missing:
  "(case adversarialDebate w_say 0 w_single_orch of
      Inl e \<Rightarrow> False
    | Inr orch' \<Rightarrow>
        (case state orch' of
           None \<Rightarrow> False
         | Some s' \<Rightarrow>
             map (\<lambda>e. (action e, targetFinding e)) (concat (map entries (rounds (last (debates s')))))
               = [(Present, Some ''ReentrancyExpert-1''), (Attack, Some ''ReentrancyExpert-1''),
                  (Defend, Some ''ReentrancyExpert-1''), (Challenge, Some ''ReentrancyExpert-1'')]
             \<and> map_option (map action) (debateHistory (findings s' ! 0))
               = Some [Attack, Defend, Challenge]))"
  by (simp add: adversarialDebate_def w_single_orch_def w_spawn_state_def debateRounds_def
      prioritized_single batches_single batches_empty presentStep_def attackStep_def
      defendStep_def challengeStep_def mkRound_def w_say_def cx_A_def defaultExperts_def
      debateAgents_def Let_def)

section \<open>Facts about the arena\<close>


lemma map_update_same: "(map f xs)[i := f (xs ! i)] = map f xs"
proof (cases "i < length xs")
  case True
  then have "f (xs ! i) = map f xs ! i" by simp
  then show ?thesis by (simp only: list_update_id)
next
  case False
  then have "length (map f xs) \<le> i" by simp
  then show ?thesis by (rule list_update_beyond)
qed

lemma ids_update_history:
  "map id_f (fs[i := (fs ! i)\<lparr> debateHistory := h \<rparr>]) = map id_f fs"
  by (simp add: map_update map_update_same)

lemma ids_update_status:
  "map id_f (fs[i := (fs ! i)\<lparr> status := h \<rparr>]) = map id_f fs"
  by (simp add: map_update map_update_same)

lemma add_entry_inv:
  assumes inv: "roundInv ids L (fs, es)" and i: "i \<in> set L" and len: "i < length ids"
    and tg: "targetFinding e = Some (id_f (fs ! i))"
  shows "roundInv ids L (fs[i := (fs ! i)\<lparr> debateHistory := h \<rparr>], es @ [e])"
proof -
  from inv have ids: "map id_f fs = ids"
    and old: "\<forall>e \<in> set es. \<exists>j \<in> set L. targetFinding e = Some (ids ! j)"
    by (simp_all add: roundInv_def)
  from ids len have "id_f (fs ! i) = ids ! i"
    by (metis length_map nth_map)
  with tg have "targetFinding e = Some (ids ! i)" by simp
  with i have new: "\<exists>j \<in> set L. targetFinding e = Some (ids ! j)" by blast
  have "\<forall>x \<in> set (es @ [e]). \<exists>j \<in> set L. targetFinding x = Some (ids ! j)"
  proof
    fix x assume "x \<in> set (es @ [e])"
    then have "x \<in> set es \<or> x = e" by auto
    with old new show "\<exists>j \<in> set L. targetFinding x = Some (ids ! j)" by blast
  qed
  with ids show ?thesis
    by (simp add: roundInv_def ids_update_history)
qed

lemma record_entry_inv:
  assumes "roundInv ids L st" and "i \<in> set L" and "i < length ids"
    and "targetFinding e = Some (id_f (fst st ! i))"
  shows "roundInv ids L (record_entry i e st)"
proof -
  obtain fs es where st: "st = (fs, es)" by (cases st)
  with assms have "roundInv ids L (fs, es)" and "targetFinding e = Some (id_f (fs ! i))"
    by simp_all
  from add_entry_inv [OF this(1) assms(2,3) this(2)] show ?thesis
    by (simp add: st record_entry_def)
qed

lemma presentationStep_inv:
  assumes "presentationStep sp answer i st = Inr st'" and "roundInv ids L st"
    and "i \<in> set L" and "i < length ids"
  shows "roundInv ids L st'"
proof -
  obtain fs es where st: "st = (fs, es)" by (cases st)
  with assms(2) have inv: "roundInv ids L (fs, es)" by simp
  from assms(1) have "st' = st \<or> (\<exists>e h. st' = (fs[i := (fs ! i)\<lparr> debateHistory := h \<rparr>], es @ [e])
      \<and> targetFinding e = Some (id_f (fs ! i)))"
    unfolding st
    by (auto simp: presentationStep_def Let_def split: option.splits sum.splits)
  with add_entry_inv [OF inv assms(3,4)] assms(2) show ?thesis
    by auto
qed

lemma attackRoundStep_inv:
  assumes "attackRoundStep team draw answer i st = Inr st'" and "roundInv ids L st"
    and "i \<in> set L" and "i < length ids"
  shows "roundInv ids L st'"
proof -
  from assms(1) obtain e where "st' = record_entry i e st"
    and "targetFinding e = Some (id_f (fst st ! i))"
    by (auto simp: attackRoundStep_def split: option.splits sum.splits)
  with record_entry_inv [OF assms(2,3,4)] show ?thesis by simp
qed



lemma defenseStep_inv:
  assumes "defenseStep team sp atk orc i st = Inr st'" and "roundInv ids L st"
    and "i \<in> set L" and "i < length ids"
  shows "roundInv ids L st'"
proof -
  from assms(1) have "st' = st \<or> (\<exists>e. st' = record_entry i e st
      \<and> targetFinding e = Some (id_f (fst st ! i)))"
    by (auto simp: defenseStep_def split: option.splits sum.splits if_splits)
  with record_entry_inv [OF assms(2,3,4)] assms(2) show ?thesis by auto
qed

lemma processConcessions_ids:
  "map id_f (fst (processConcessions es (fs, life))) = map id_f fs"
proof (induction es arbitrary: fs life)
  case Nil
  then show ?case by simp
next
  case (Cons e es)
  then show ?case
    by (auto simp: ids_update_status split: option.splits)
qed








lemma concede_text: "concedesPattern ''I concede.''"
  by (simp add: concedesPattern_def concessionPhrases_def phraseAt_def isWordChar_def toLower_def)







text \<open>In the arena every entry of a round is the entry appended to the finding's history:
  after the debate over one finding the history is the rounds' entries in order, the
  \<open>present\<close> entry among them.\<close>

lemma arena_history_shared:
  "debateHistory (findings_d (session_r (projr (debate defaultDebateConfig arena_oracle 0 [cx_A] []
      arena_specialists))) ! 0)
   = Some (concat (map entries (rounds (session_r (projr (debate defaultDebateConfig arena_oracle 0
      [cx_A] [] arena_specialists))))))
   \<and> map action (concat (map entries (rounds (session_r (projr (debate defaultDebateConfig
      arena_oracle 0 [cx_A] [] arena_specialists))))))
   = [Present, Attack, Concede]"
  by code_simp



section \<open>Facts about structured answers\<close>

lemma fence_length: "length fence = 3"
  by (simp add: fence_def)














end
